theory Spec2Isabelle
  imports Complex_Main
begin

section \<open>JavaScript values\<close>

text \<open>
  The module \<^verbatim>\<open>shared/schema.ts\<close> builds validation schemas by composing calls of the
  zod and drizzle-zod libraries. The values a schema receives are JavaScript values.

  A JavaScript number is NaN, an infinity or a finite number. A finite number is
  represented by the decimal value its literal denotes (the value \<^verbatim>\<open>toString\<close> prints),
  as an exact rational: rounding to binary64 and the sign of zero are not represented.
  A \<^verbatim>\<open>Date\<close> carries its time value, \<open>None\<close> for an invalid date. An object is the list of
  its own properties; a key is looked up with \<open>map_of\<close>.
\<close>

datatype number = NaN | PosInfinity | NegInfinity | Finite rat

datatype jsval =
    JUndefined
  | JNull
  | JBoolean bool
  | JNumber number
  | JString string
  | JDate "int option"

type_synonym jsobject = "(string \<times> jsval) list"

text \<open>\<^verbatim>\<open>ToBoolean\<close>, which decides the condition of \<^verbatim>\<open>val ? a : b\<close>.\<close>

fun toBoolean :: "jsval \<Rightarrow> bool" where
  "toBoolean JUndefined = False"
| "toBoolean JNull = False"
| "toBoolean (JBoolean b) = b"
| "toBoolean (JNumber NaN) = False"
| "toBoolean (JNumber PosInfinity) = True"
| "toBoolean (JNumber NegInfinity) = True"
| "toBoolean (JNumber (Finite x)) = (if x = 0 then False else True)"
| "toBoolean (JString s) = (case s of [] \<Rightarrow> False | _ # _ \<Rightarrow> True)"
| "toBoolean (JDate t) = True"

subsection \<open>parseFloat\<close>

text \<open>
  The global \<^verbatim>\<open>parseFloat\<close>: leading white space is skipped, then the longest prefix that
  is a decimal literal (an optional sign, then \<^verbatim>\<open>Infinity\<close> or digits with an optional
  fraction and an optional exponent) is read, and what follows it is ignored. When no
  prefix is a decimal literal the result is NaN. Text is a list of 8-bit characters, so
  white space is the ASCII white space; the value read is exact, whatever its exponent.
\<close>

definition isDigit :: "char \<Rightarrow> bool" where
  "isDigit c = (c \<in> set ''0123456789'')"

definition isWhiteSpace :: "char \<Rightarrow> bool" where
  "isWhiteSpace c = (c \<in> set [CHR '' '', CHR 0x09, CHR 0x0A, CHR 0x0B, CHR 0x0C, CHR 0x0D])"

definition digitVal :: "char \<Rightarrow> nat" where
  "digitVal c = of_char c - 48"

definition digitsVal :: "string \<Rightarrow> nat" where
  "digitsVal ds = foldl (\<lambda>a c. 10 * a + digitVal c) 0 ds"

text \<open>The sign in front of a literal: whether it is negative, and the rest of the text.\<close>

fun signPart :: "string \<Rightarrow> bool \<times> string" where
  "signPart [] = (False, [])"
| "signPart (c # r) =
     (if c = CHR ''-'' then (True, r)
      else if c = CHR ''+'' then (False, r)
      else (False, c # r))"

text \<open>The fraction after the integer digits: its digits and the rest of the text.\<close>

fun fractionPart :: "string \<Rightarrow> string \<times> string" where
  "fractionPart [] = ([], [])"
| "fractionPart (c # r) =
     (if c = CHR ''.'' then (takeWhile isDigit r, dropWhile isDigit r)
      else ([], c # r))"

text \<open>
  The exponent: \<^verbatim>\<open>e\<close> or \<^verbatim>\<open>E\<close>, an optional sign and at least one digit; anything else is
  not part of the literal and the exponent is 0.
\<close>

fun exponentPart :: "string \<Rightarrow> int" where
  "exponentPart [] = 0"
| "exponentPart (c # r) =
     (if c = CHR ''e'' \<or> c = CHR ''E'' then
        (case signPart r of (neg, d) \<Rightarrow>
           (case takeWhile isDigit d of
              [] \<Rightarrow> 0
            | x # xs \<Rightarrow> (if neg then - int (digitsVal (x # xs)) else int (digitsVal (x # xs)))))
      else 0)"

definition scale10 :: "rat \<Rightarrow> int \<Rightarrow> rat" where
  "scale10 m e = (if e < 0 then m / 10 ^ nat (- e) else m * 10 ^ nat e)"

definition parseFloat :: "string \<Rightarrow> number" where
  "parseFloat s =
     (case signPart (dropWhile isWhiteSpace s) of (neg, u) \<Rightarrow>
        if take 8 u = ''Infinity'' then (if neg then NegInfinity else PosInfinity)
        else
          (case fractionPart (dropWhile isDigit u) of (fp, rest) \<Rightarrow>
             (case takeWhile isDigit u @ fp of
                [] \<Rightarrow> NaN
              | x # xs \<Rightarrow>
                  (let m = scale10 (of_nat (digitsVal (x # xs)) / 10 ^ length fp) (exponentPart rest)
                   in Finite (if neg then - m else m)))))"

section \<open>drizzle tables\<close>

text \<open>
  A column as its builder leaves it: the type, whether it is \<^verbatim>\<open>notNull\<close> and whether it
  has a default. \<^verbatim>\<open>unique()\<close> changes none of the three.
\<close>

datatype coltype = PgVarchar | PgText | PgNumeric | PgInteger | PgBoolean | PgTimestamp

record column =
  colName :: string
  dataType :: coltype
  notNull :: bool
  hasDefault :: bool

definition mkColumn :: "coltype \<Rightarrow> string \<Rightarrow> column" where
  "mkColumn ty n = \<lparr>colName = n, dataType = ty, notNull = False, hasDefault = False\<rparr>"

definition setNotNull :: "column \<Rightarrow> column" where
  "setNotNull c = c\<lparr>notNull := True\<rparr>"

definition primaryKey :: "column \<Rightarrow> column" where
  "primaryKey c = c\<lparr>notNull := True\<rparr>"

definition setDefault :: "column \<Rightarrow> column" where
  "setDefault c = c\<lparr>hasDefault := True\<rparr>"

definition unique :: "column \<Rightarrow> column" where
  "unique c = c"

type_synonym table = "(string \<times> column) list"

section \<open>zod\<close>

text \<open>
  The zod types the module uses, with the behaviour of zod 3. \<open>ZStringTransform f\<close> is
  \<^verbatim>\<open>z.string().transform(f)\<close>: the function runs on the string only once \<^verbatim>\<open>z.string()\<close> has
  accepted the input, and its result is the output as it is.
\<close>

datatype zcheck = CheckMin rat | CheckMax rat | CheckMultipleOf rat | CheckInt

datatype ztype =
    ZString
  | ZNumber "zcheck list"
  | ZBoolean
  | ZDate
  | ZOptional ztype
  | ZNullable ztype
  | ZStringTransform "string \<Rightarrow> jsval"

datatype issue_code = invalid_type | invalid_date | too_small | too_big | not_multiple_of

fun isInteger :: "number \<Rightarrow> bool" where
  "isInteger (Finite x) = (of_int \<lfloor>x\<rfloor> = x)"
| "isInteger _ = False"

text \<open>
  \<^verbatim>\<open>multipleOf(step)\<close>: the remainder of the value by the step, taken on the decimal
  digits, is zero. An infinity has the remainder NaN, which is not zero.
\<close>

fun isMultipleOf :: "number \<Rightarrow> rat \<Rightarrow> bool" where
  "isMultipleOf (Finite x) step = (if step = 0 then False else of_int \<lfloor>x / step\<rfloor> = x / step)"
| "isMultipleOf _ step = False"

fun lessThan_num :: "number \<Rightarrow> rat \<Rightarrow> bool" where
  "lessThan_num (Finite x) b = (x < b)"
| "lessThan_num NegInfinity b = True"
| "lessThan_num _ b = False"

fun greaterThan_num :: "number \<Rightarrow> rat \<Rightarrow> bool" where
  "greaterThan_num (Finite x) b = (x > b)"
| "greaterThan_num PosInfinity b = True"
| "greaterThan_num _ b = False"

text \<open>One check of a \<^verbatim>\<open>z.number()\<close>: the issues it adds. Every check runs; none aborts.\<close>

fun run_check :: "number \<Rightarrow> zcheck \<Rightarrow> issue_code list" where
  "run_check n (CheckMin b) = (if lessThan_num n b then [too_small] else [])"
| "run_check n (CheckMax b) = (if greaterThan_num n b then [too_big] else [])"
| "run_check n (CheckMultipleOf step) = (if isMultipleOf n step then [] else [not_multiple_of])"
| "run_check n CheckInt = (if isInteger n then [] else [invalid_type])"

text \<open>
  Parsing one value by one type: the issues, or the output value. \<^verbatim>\<open>z.number()\<close> rejects
  NaN, \<^verbatim>\<open>z.date()\<close> rejects an invalid date, \<^verbatim>\<open>optional()\<close> passes \<^verbatim>\<open>undefined\<close> through and
  \<^verbatim>\<open>nullable()\<close> passes \<^verbatim>\<open>null\<close> through.
\<close>

fun parse_type :: "ztype \<Rightarrow> jsval \<Rightarrow> issue_code list + jsval" where
  "parse_type ZString v = (case v of JString s \<Rightarrow> Inr (JString s) | _ \<Rightarrow> Inl [invalid_type])"
| "parse_type (ZNumber cs) v =
     (case v of
        JNumber n \<Rightarrow>
          (case n of
             NaN \<Rightarrow> Inl [invalid_type]
           | _ \<Rightarrow> (case concat (map (run_check n) cs) of
                     [] \<Rightarrow> Inr (JNumber n)
                   | e # es \<Rightarrow> Inl (e # es)))
      | _ \<Rightarrow> Inl [invalid_type])"
| "parse_type ZBoolean v = (case v of JBoolean b \<Rightarrow> Inr (JBoolean b) | _ \<Rightarrow> Inl [invalid_type])"
| "parse_type ZDate v =
     (case v of
        JDate t \<Rightarrow> (case t of None \<Rightarrow> Inl [invalid_date] | Some ms \<Rightarrow> Inr (JDate (Some ms)))
      | _ \<Rightarrow> Inl [invalid_type])"
| "parse_type (ZOptional t) v = (case v of JUndefined \<Rightarrow> Inr JUndefined | _ \<Rightarrow> parse_type t v)"
| "parse_type (ZNullable t) v = (case v of JNull \<Rightarrow> Inr JNull | _ \<Rightarrow> parse_type t v)"
| "parse_type (ZStringTransform f) v =
     (case v of JString s \<Rightarrow> Inr (f s) | _ \<Rightarrow> Inl [invalid_type])"

subsection \<open>Object schemas\<close>

text \<open>
  A \<^verbatim>\<open>z.object\<close> is its shape: the keys in declaration order, each with its type. All the
  schemas of the module keep zod's default for unknown keys, which is to strip them.
\<close>

type_synonym shape = "(string \<times> ztype) list"

text \<open>\<^verbatim>\<open>omit(mask)\<close> keeps the keys of the shape that the mask does not name.\<close>

definition omit :: "string list \<Rightarrow> shape \<Rightarrow> shape" where
  "omit ks sh = filter (\<lambda>kt. fst kt \<notin> set ks) sh"

text \<open>
  \<^verbatim>\<open>extend(aug)\<close> is the spread of the shape followed by the augmentation: a key the shape
  has keeps its place and takes the new type, a new key is appended.
\<close>

definition extend :: "shape \<Rightarrow> shape \<Rightarrow> shape" where
  "extend sh aug =
     map (\<lambda>kt. (fst kt, case map_of aug (fst kt) of None \<Rightarrow> snd kt | Some t \<Rightarrow> t)) sh
     @ filter (\<lambda>kt. map_of sh (fst kt) = None) aug"

text \<open>\<^verbatim>\<open>partial()\<close> makes the type of every key optional.\<close>

definition partial :: "shape \<Rightarrow> shape" where
  "partial sh = map (\<lambda>kt. (fst kt, ZOptional (snd kt))) sh"

text \<open>\<^verbatim>\<open>data[key]\<close>: the value of the property, \<^verbatim>\<open>undefined\<close> when the object has none.\<close>

definition getProp :: "jsobject \<Rightarrow> string \<Rightarrow> jsval" where
  "getProp data k = (case map_of data k of None \<Rightarrow> JUndefined | Some v \<Rightarrow> v)"

text \<open>
  The issues of an object: those of every key of the shape, in order, each with its key
  as path. Keys that are not in the shape are not looked at.
\<close>

primrec object_issues :: "shape \<Rightarrow> jsobject \<Rightarrow> (string \<times> issue_code) list" where
  "object_issues [] data = []"
| "object_issues (kt # sh) data =
     (case parse_type (snd kt) (getProp data (fst kt)) of
        Inl es \<Rightarrow> map (Pair (fst kt)) es
      | Inr v \<Rightarrow> [])
     @ object_issues sh data"

text \<open>
  The output object: a key of the shape is set when its parsed value is not
  \<^verbatim>\<open>undefined\<close> or when the input has the key.
\<close>

primrec object_output :: "shape \<Rightarrow> jsobject \<Rightarrow> jsobject" where
  "object_output [] data = []"
| "object_output (kt # sh) data =
     (case parse_type (snd kt) (getProp data (fst kt)) of
        Inl es \<Rightarrow> []
      | Inr v \<Rightarrow>
          (if v = JUndefined
           then (case map_of data (fst kt) of None \<Rightarrow> [] | Some u \<Rightarrow> [(fst kt, v)])
           else [(fst kt, v)]))
     @ object_output sh data"

definition safeParse :: "shape \<Rightarrow> jsobject \<Rightarrow> (string \<times> issue_code) list + jsobject" where
  "safeParse sh data =
     (case object_issues sh data of
        [] \<Rightarrow> Inr (object_output sh data)
      | e # es \<Rightarrow> Inl (e # es))"

section \<open>drizzle-zod\<close>

text \<open>
  \<^verbatim>\<open>createInsertSchema\<close>: a text, varchar or numeric column is a \<^verbatim>\<open>z.string()\<close>, an integer
  column a 32-bit integer \<^verbatim>\<open>z.number()\<close>, a boolean column a \<^verbatim>\<open>z.boolean()\<close> and a timestamp
  column a \<^verbatim>\<open>z.date()\<close>; a column that may be null is \<^verbatim>\<open>nullable().optional()\<close>, and a
  \<^verbatim>\<open>notNull\<close> column with a default is \<^verbatim>\<open>optional()\<close>.
\<close>

fun columnBase :: "coltype \<Rightarrow> ztype" where
  "columnBase PgVarchar = ZString"
| "columnBase PgText = ZString"
| "columnBase PgNumeric = ZString"
| "columnBase PgInteger = ZNumber [CheckMin (- 2147483648), CheckMax 2147483647, CheckInt]"
| "columnBase PgBoolean = ZBoolean"
| "columnBase PgTimestamp = ZDate"

definition columnSchema :: "column \<Rightarrow> ztype" where
  "columnSchema c =
     (if \<not> notNull c then ZOptional (ZNullable (columnBase (dataType c)))
      else if hasDefault c then ZOptional (columnBase (dataType c))
      else columnBase (dataType c))"

definition createInsertSchema :: "table \<Rightarrow> shape" where
  "createInsertSchema t = map (\<lambda>kc. (fst kc, columnSchema (snd kc))) t"

section \<open>The schemas of the module\<close>

definition users :: table where
  "users =
     [(''id'', setDefault (primaryKey (mkColumn PgVarchar ''id''))),
      (''username'', unique (setNotNull (mkColumn PgText ''username''))),
      (''password'', setNotNull (mkColumn PgText ''password''))]"

definition insertUserSchema :: shape where
  "insertUserSchema = omit [''id''] (createInsertSchema users)"

definition tasks :: table where
  "tasks =
     [(''id'', setDefault (primaryKey (mkColumn PgVarchar ''id''))),
      (''userId'', setNotNull (mkColumn PgVarchar ''user_id'')),
      (''title'', setNotNull (mkColumn PgText ''title'')),
      (''description'', mkColumn PgText ''description''),
      (''domain'', setNotNull (mkColumn PgText ''domain'')),
      (''priority'', setDefault (setNotNull (mkColumn PgText ''priority''))),
      (''estimatedHours'', setDefault (setNotNull (mkColumn PgNumeric ''estimated_hours''))),
      (''actualHours'', mkColumn PgNumeric ''actual_hours''),
      (''xpReward'', setDefault (setNotNull (mkColumn PgInteger ''xp_reward''))),
      (''euReward'', setDefault (setNotNull (mkColumn PgInteger ''eu_reward''))),
      (''isCompleted'', setDefault (setNotNull (mkColumn PgBoolean ''is_completed''))),
      (''completedAt'', mkColumn PgTimestamp ''completed_at''),
      (''dueDate'', mkColumn PgTimestamp ''due_date''),
      (''createdAt'', setDefault (setNotNull (mkColumn PgTimestamp ''created_at''))),
      (''updatedAt'', setDefault (setNotNull (mkColumn PgTimestamp ''updated_at'')))]"

definition insertTaskSchema :: shape where
  "insertTaskSchema =
     omit [''id'', ''xpReward'', ''euReward'', ''isCompleted'', ''completedAt'',
           ''createdAt'', ''updatedAt'']
       (createInsertSchema tasks)"

definition updateTaskSchema :: shape where
  "updateTaskSchema =
     partial
       (omit [''id'', ''userId'', ''xpReward'', ''euReward'', ''createdAt'', ''updatedAt'']
          (createInsertSchema tasks))"

definition numericFieldTransform :: ztype where
  "numericFieldTransform = ZStringTransform (\<lambda>val. JNumber (parseFloat val))"

definition clientTaskSchema :: shape where
  "clientTaskSchema =
     omit [''userId'']
       (extend insertTaskSchema
          [(''estimatedHours'', ZNumber [CheckMin 0.5, CheckMax 24, CheckMultipleOf 0.5]),
           (''dueDate'', ZOptional ZString)])"

definition clientUpdateTaskSchema :: shape where
  "clientUpdateTaskSchema =
     omit [''completedAt'']
       (extend updateTaskSchema
          [(''actualHours'',
              ZOptional (ZNumber [CheckMin 0.1, CheckMax 100, CheckMultipleOf 0.1])),
           (''estimatedHours'',
              ZOptional (ZNumber [CheckMin 0.5, CheckMax 24, CheckMultipleOf 0.5])),
           (''dueDate'', ZOptional ZString)])"

definition taskResponseSchema :: shape where
  "taskResponseSchema =
     omit []
       (extend (createInsertSchema tasks)
          [(''estimatedHours'', numericFieldTransform),
           (''actualHours'',
              ZNullable
                (ZStringTransform
                   (\<lambda>val. if toBoolean (JString val) then JNumber (parseFloat val) else JNull)))])"

section \<open>Evaluated shapes\<close>

lemmas table_defs = createInsertSchema_def columnSchema_def mkColumn_def setNotNull_def
  setDefault_def primaryKey_def unique_def omit_def extend_def partial_def

lemma createInsertSchema_users:
  "createInsertSchema users =
     [(''id'', ZOptional ZString), (''username'', ZString), (''password'', ZString)]"
  by (simp add: users_def table_defs)

lemma createInsertSchema_tasks:
  "createInsertSchema tasks =
     [(''id'', ZOptional ZString),
      (''userId'', ZString),
      (''title'', ZString),
      (''description'', ZOptional (ZNullable ZString)),
      (''domain'', ZString),
      (''priority'', ZOptional ZString),
      (''estimatedHours'', ZOptional ZString),
      (''actualHours'', ZOptional (ZNullable ZString)),
      (''xpReward'', ZOptional (ZNumber [CheckMin (- 2147483648), CheckMax 2147483647, CheckInt])),
      (''euReward'', ZOptional (ZNumber [CheckMin (- 2147483648), CheckMax 2147483647, CheckInt])),
      (''isCompleted'', ZOptional ZBoolean),
      (''completedAt'', ZOptional (ZNullable ZDate)),
      (''dueDate'', ZOptional (ZNullable ZDate)),
      (''createdAt'', ZOptional ZDate),
      (''updatedAt'', ZOptional ZDate)]"
  by (simp add: tasks_def table_defs)

lemma insertTaskSchema_shape:
  "insertTaskSchema =
     [(''userId'', ZString),
      (''title'', ZString),
      (''description'', ZOptional (ZNullable ZString)),
      (''domain'', ZString),
      (''priority'', ZOptional ZString),
      (''estimatedHours'', ZOptional ZString),
      (''actualHours'', ZOptional (ZNullable ZString)),
      (''dueDate'', ZOptional (ZNullable ZDate))]"
  by (simp add: insertTaskSchema_def createInsertSchema_tasks omit_def)

lemma updateTaskSchema_shape:
  "updateTaskSchema =
     [(''title'', ZOptional ZString),
      (''description'', ZOptional (ZOptional (ZNullable ZString))),
      (''domain'', ZOptional ZString),
      (''priority'', ZOptional (ZOptional ZString)),
      (''estimatedHours'', ZOptional (ZOptional ZString)),
      (''actualHours'', ZOptional (ZOptional (ZNullable ZString))),
      (''isCompleted'', ZOptional (ZOptional ZBoolean)),
      (''completedAt'', ZOptional (ZOptional (ZNullable ZDate))),
      (''dueDate'', ZOptional (ZOptional (ZNullable ZDate)))]"
  by (simp add: updateTaskSchema_def createInsertSchema_tasks omit_def partial_def)

lemma clientTaskSchema_shape:
  "clientTaskSchema =
     [(''title'', ZString),
      (''description'', ZOptional (ZNullable ZString)),
      (''domain'', ZString),
      (''priority'', ZOptional ZString),
      (''estimatedHours'', ZNumber [CheckMin 0.5, CheckMax 24, CheckMultipleOf 0.5]),
      (''actualHours'', ZOptional (ZNullable ZString)),
      (''dueDate'', ZOptional ZString)]"
  by (simp add: clientTaskSchema_def insertTaskSchema_shape omit_def extend_def)

lemma clientUpdateTaskSchema_shape:
  "clientUpdateTaskSchema =
     [(''title'', ZOptional ZString),
      (''description'', ZOptional (ZOptional (ZNullable ZString))),
      (''domain'', ZOptional ZString),
      (''priority'', ZOptional (ZOptional ZString)),
      (''estimatedHours'', ZOptional (ZNumber [CheckMin 0.5, CheckMax 24, CheckMultipleOf 0.5])),
      (''actualHours'', ZOptional (ZNumber [CheckMin 0.1, CheckMax 100, CheckMultipleOf 0.1])),
      (''isCompleted'', ZOptional (ZOptional ZBoolean)),
      (''dueDate'', ZOptional ZString)]"
  by (simp add: clientUpdateTaskSchema_def updateTaskSchema_shape omit_def extend_def)

lemma taskResponseSchema_keys:
  "map fst taskResponseSchema =
     [''id'', ''userId'', ''title'', ''description'', ''domain'', ''priority'',
      ''estimatedHours'', ''actualHours'', ''xpReward'', ''euReward'', ''isCompleted'',
      ''completedAt'', ''dueDate'', ''createdAt'', ''updatedAt'']"
  by (simp add: taskResponseSchema_def createInsertSchema_tasks omit_def extend_def)

lemma taskResponseSchema_shape:
  "taskResponseSchema =
     [(''id'', ZOptional ZString),
      (''userId'', ZString),
      (''title'', ZString),
      (''description'', ZOptional (ZNullable ZString)),
      (''domain'', ZString),
      (''priority'', ZOptional ZString),
      (''estimatedHours'', numericFieldTransform),
      (''actualHours'', ZNullable (ZStringTransform
         (\<lambda>val. if toBoolean (JString val) then JNumber (parseFloat val) else JNull))),
      (''xpReward'', ZOptional (ZNumber [CheckMin (- 2147483648), CheckMax 2147483647, CheckInt])),
      (''euReward'', ZOptional (ZNumber [CheckMin (- 2147483648), CheckMax 2147483647, CheckInt])),
      (''isCompleted'', ZOptional ZBoolean),
      (''completedAt'', ZOptional (ZNullable ZDate)),
      (''dueDate'', ZOptional (ZNullable ZDate)),
      (''createdAt'', ZOptional ZDate),
      (''updatedAt'', ZOptional ZDate)]"
  by (simp add: taskResponseSchema_def createInsertSchema_tasks omit_def extend_def)

lemma taskResponseSchema_actualHours:
  "map_of taskResponseSchema ''actualHours'' =
     Some (ZNullable (ZStringTransform
       (\<lambda>val. if toBoolean (JString val) then JNumber (parseFloat val) else JNull)))"
  by (simp add: taskResponseSchema_def createInsertSchema_tasks omit_def extend_def)

lemma taskResponseSchema_estimatedHours:
  "map_of taskResponseSchema ''estimatedHours'' = Some numericFieldTransform"
  by (simp add: taskResponseSchema_def createInsertSchema_tasks omit_def extend_def)

lemma taskResponseSchema_distinct: "distinct (map fst taskResponseSchema)"
  by (simp add: taskResponseSchema_keys)



section \<open>Properties of object parsing\<close>

text \<open>A type that rejects a value reports at least one issue.\<close>

lemma parse_type_Inl_nonempty: "parse_type t v = Inl es \<Longrightarrow> es \<noteq> []"
  by (induction t arbitrary: es) (auto split: jsval.splits number.splits list.splits option.splits)

lemma object_output_keys: "fst ` set (object_output sh d) \<subseteq> fst ` set sh"
  by (induction sh) (auto split: sum.splits jsval.splits option.splits)

lemma safeParse_keys: "safeParse sh d = Inr out \<Longrightarrow> fst ` set out \<subseteq> fst ` set sh"
  using object_output_keys [of sh d] by (auto simp: safeParse_def split: list.splits)

lemma object_issues_member:
  "(k, t) \<in> set sh \<Longrightarrow> parse_type t (getProp d k) = Inl es \<Longrightarrow> e \<in> set es
     \<Longrightarrow> (k, e) \<in> set (object_issues sh d)"
  by (induction sh) (auto split: sum.splits)

lemma object_issues_Nil:
  "object_issues sh d = [] \<Longrightarrow> (k, t) \<in> set sh \<Longrightarrow> \<exists>v. parse_type t (getProp d k) = Inr v"
  by (induction sh) (auto split: sum.splits dest: parse_type_Inl_nonempty)

lemma object_output_lookup:
  "distinct (map fst sh) \<Longrightarrow> (k, t) \<in> set sh \<Longrightarrow> parse_type t (getProp d k) = Inr v
     \<Longrightarrow> v \<noteq> JUndefined
     \<Longrightarrow> map_of (object_output sh d) k = Some v"
proof (induction sh)
  case Nil
  then show ?case by simp
next
  case (Cons a sh)
  show ?case
  proof (cases "fst a = k")
    case True
    with Cons.prems have "snd a = t"
      by (cases a) (auto simp: image_iff)
    with True Cons.prems show ?thesis
      by (cases v) (auto split: sum.splits)
  next
    case False
    with Cons.prems have in_tl: "(k, t) \<in> set sh" by auto
    have "map_of (object_output sh d) k = Some v"
      using Cons.IH Cons.prems in_tl by simp
    with False show ?thesis
      by (auto simp: map_add_def split: sum.splits jsval.splits option.splits)
  qed
qed

lemma optional_issue_present:
  "parse_type (ZOptional t) (getProp d k) = Inl es \<Longrightarrow> k \<in> fst ` set d"
  by (cases "map_of d k") (force simp: getProp_def dest!: map_of_SomeD)+

lemma partial_issues_present:
  "fst ` set (object_issues (partial sh) d) \<subseteq> fst ` set d"
proof (induction sh)
  case Nil
  then show ?case by (simp add: partial_def)
next
  case (Cons a sh)
  from Cons.IH have tl: "fst ` set (object_issues (map (\<lambda>kt. (fst kt, ZOptional (snd kt))) sh) d)
      \<subseteq> fst ` set d"
    by (simp add: partial_def)
  show ?case
  proof (cases "parse_type (ZOptional (snd a)) (getProp d (fst a))")
    case (Inl es)
    from optional_issue_present [OF Inl] have "fst a \<in> fst ` set d" .
    with Inl tl show ?thesis
      by (simp add: partial_def image_Un del: parse_type.simps) (force simp: image_iff)
  next
    case (Inr v)
    with tl show ?thesis
      by (auto simp add: partial_def simp del: parse_type.simps)
  qed
qed

text \<open>No type of the module supplies a default: an absent value is never given one.\<close>

lemma parse_type_undefined: "parse_type t JUndefined = Inr v \<Longrightarrow> v = JUndefined"
  by (induction t) auto

lemma output_entry_present:
  "parse_type t (getProp d k) = Inr v \<Longrightarrow> v \<noteq> JUndefined \<Longrightarrow> k \<in> fst ` set d"
  by (cases "map_of d k") (force simp: getProp_def dest: parse_type_undefined map_of_SomeD)+

lemma object_output_present: "fst ` set (object_output sh d) \<subseteq> fst ` set d"
proof (induction sh)
  case Nil
  then show ?case by simp
next
  case (Cons a sh)
  show ?case
  proof (cases "parse_type (snd a) (getProp d (fst a))")
    case (Inl es)
    with Cons.IH show ?thesis by (simp del: parse_type.simps)
  next
    case (Inr v)
    show ?thesis
    proof (cases "v = JUndefined")
      case True
      show ?thesis
      proof (cases "map_of d (fst a)")
        case None
        with True Inr Cons.IH show ?thesis by (simp del: parse_type.simps)
      next
        case (Some u)
        then have "fst a \<in> fst ` set d" by (force dest: map_of_SomeD)
        with Some True Inr Cons.IH show ?thesis by (simp del: parse_type.simps)
      qed
    next
      case False
      from output_entry_present [OF Inr False] have "fst a \<in> fst ` set d" .
      with False Inr Cons.IH show ?thesis by (simp del: parse_type.simps)
    qed
  qed
qed

lemma object_issues_Nil_iff:
  "object_issues sh d = [] \<longleftrightarrow>
     (\<forall>kt \<in> set sh. \<exists>v. parse_type (snd kt) (getProp d (fst kt)) = Inr v)"
proof (induction sh)
  case Nil
  then show ?case by simp
next
  case (Cons a sh)
  show ?case
  proof (cases "parse_type (snd a) (getProp d (fst a))")
    case (Inl es)
    with parse_type_Inl_nonempty [OF Inl] show ?thesis
      by (simp del: parse_type.simps)
  next
    case (Inr v)
    with Cons.IH show ?thesis
      by (simp del: parse_type.simps)
  qed
qed

lemma safeParse_Inr_iff:
  "(\<exists>out. safeParse sh d = Inr out) \<longleftrightarrow> object_issues sh d = []"
  by (cases "object_issues sh d") (simp_all add: safeParse_def)

lemma safeParse_Inr_output:
  "safeParse sh d = Inr out \<Longrightarrow> out = object_output sh d \<and> object_issues sh d = []"
  by (cases "object_issues sh d") (simp_all add: safeParse_def)

lemma safeParse_Inl_issues:
  "safeParse sh d = Inl es \<Longrightarrow> es = object_issues sh d"
  by (cases "object_issues sh d") (simp_all add: safeParse_def)

text \<open>
  A payload whose other fields are valid: the object is valid exactly when the field
  left out is.
\<close>

lemma otherwise_valid:
  assumes dist: "distinct (map fst sh)"
    and field: "map_of sh k = Some t"
    and others: "object_issues (omit [k] sh) d = []"
  shows "object_issues sh d = [] \<longleftrightarrow> (\<exists>v. parse_type t (getProp d k) = Inr v)"
proof
  assume "object_issues sh d = []"
  moreover from field have "(k, t) \<in> set sh" by (rule map_of_SomeD)
  ultimately show "\<exists>v. parse_type t (getProp d k) = Inr v"
    by (rule object_issues_Nil)
next
  assume ok: "\<exists>v. parse_type t (getProp d k) = Inr v"
  have "\<exists>v. parse_type (snd kt) (getProp d (fst kt)) = Inr v" if mem: "kt \<in> set sh" for kt
  proof (cases "fst kt = k")
    case True
    from mem have "(fst kt, snd kt) \<in> set sh" by simp
    with dist have "map_of sh (fst kt) = Some (snd kt)" by simp
    with True field have "snd kt = t" by simp
    with True ok show ?thesis by simp
  next
    case False
    with mem have "kt \<in> set (omit [k] sh)" by (simp add: omit_def)
    moreover from others
    have "\<forall>kt \<in> set (omit [k] sh). \<exists>v. parse_type (snd kt) (getProp d (fst kt)) = Inr v"
      by (simp only: object_issues_Nil_iff)
    ultimately show ?thesis by blast
  qed
  then have "\<forall>kt \<in> set sh. \<exists>v. parse_type (snd kt) (getProp d (fst kt)) = Inr v"
    by blast
  then show "object_issues sh d = []" by (simp only: object_issues_Nil_iff)
qed

lemma safeParse_lookup:
  assumes dist: "distinct (map fst sh)"
    and field: "map_of sh k = Some t"
    and ok: "safeParse sh d = Inr out"
    and v: "parse_type t (getProp d k) = Inr v"
    and def: "v \<noteq> JUndefined"
  shows "map_of out k = Some v"
proof -
  from field have "(k, t) \<in> set sh" by (rule map_of_SomeD)
  from object_output_lookup [OF dist this v def] safeParse_Inr_output [OF ok]
  show ?thesis by simp
qed

section \<open>Properties of the number checks\<close>




section \<open>Server-controlled fields\<close>

text \<open>
  C1 (as amended). The reward fields \<^verbatim>\<open>xpReward\<close> and \<^verbatim>\<open>euReward\<close> never appear in the validated
  output of \<^verbatim>\<open>insertTaskSchema\<close>, \<^verbatim>\<open>clientTaskSchema\<close>, \<^verbatim>\<open>updateTaskSchema\<close> or
  \<^verbatim>\<open>clientUpdateTaskSchema\<close>, whatever the input object. \<^verbatim>\<open>isCompleted\<close> and \<^verbatim>\<open>completedAt\<close> never
  appear in the output of the two create schemas, and \<^verbatim>\<open>completedAt\<close> never appears in the
  output of \<^verbatim>\<open>clientUpdateTaskSchema\<close>.
\<close>

theorem client_schemas_exclude_reward_fields:
  "(\<forall>d out. safeParse insertTaskSchema d = Inr out \<longrightarrow>
      ''xpReward'' \<notin> fst ` set out \<and> ''euReward'' \<notin> fst ` set out \<and>
      ''isCompleted'' \<notin> fst ` set out \<and> ''completedAt'' \<notin> fst ` set out)
   \<and> (\<forall>d out. safeParse clientTaskSchema d = Inr out \<longrightarrow>
      ''xpReward'' \<notin> fst ` set out \<and> ''euReward'' \<notin> fst ` set out \<and>
      ''isCompleted'' \<notin> fst ` set out \<and> ''completedAt'' \<notin> fst ` set out)
   \<and> (\<forall>d out. safeParse updateTaskSchema d = Inr out \<longrightarrow>
      ''xpReward'' \<notin> fst ` set out \<and> ''euReward'' \<notin> fst ` set out)
   \<and> (\<forall>d out. safeParse clientUpdateTaskSchema d = Inr out \<longrightarrow>
      ''xpReward'' \<notin> fst ` set out \<and> ''euReward'' \<notin> fst ` set out \<and>
      ''completedAt'' \<notin> fst ` set out)"
proof -
  have a: "''xpReward'' \<notin> fst ` set insertTaskSchema \<and> ''euReward'' \<notin> fst ` set insertTaskSchema
      \<and> ''isCompleted'' \<notin> fst ` set insertTaskSchema \<and> ''completedAt'' \<notin> fst ` set insertTaskSchema"
    by (simp add: insertTaskSchema_shape)
  have b: "''xpReward'' \<notin> fst ` set clientTaskSchema \<and> ''euReward'' \<notin> fst ` set clientTaskSchema
      \<and> ''isCompleted'' \<notin> fst ` set clientTaskSchema \<and> ''completedAt'' \<notin> fst ` set clientTaskSchema"
    by (simp add: clientTaskSchema_shape)
  have c: "''xpReward'' \<notin> fst ` set updateTaskSchema \<and> ''euReward'' \<notin> fst ` set updateTaskSchema"
    by (simp add: updateTaskSchema_shape)
  have e: "''xpReward'' \<notin> fst ` set clientUpdateTaskSchema
      \<and> ''euReward'' \<notin> fst ` set clientUpdateTaskSchema
      \<and> ''completedAt'' \<notin> fst ` set clientUpdateTaskSchema"
    by (simp add: clientUpdateTaskSchema_shape)
  show ?thesis
    using a b c e safeParse_keys by (meson subsetD)
qed

text \<open>
  The two update schemas do accept completion metadata: \<^verbatim>\<open>updateTaskSchema\<close> keeps both
  \<^verbatim>\<open>isCompleted\<close> and \<^verbatim>\<open>completedAt\<close>, and \<^verbatim>\<open>clientUpdateTaskSchema\<close> keeps \<^verbatim>\<open>isCompleted\<close>.
\<close>

theorem update_schemas_accept_completion_fields:
  "safeParse updateTaskSchema
     [(''isCompleted'', JBoolean True), (''completedAt'', JDate (Some 1700000000000))]
     = Inr [(''isCompleted'', JBoolean True), (''completedAt'', JDate (Some 1700000000000))]
   \<and> safeParse clientUpdateTaskSchema [(''isCompleted'', JBoolean True)]
     = Inr [(''isCompleted'', JBoolean True)]"
  by (simp add: safeParse_def updateTaskSchema_shape clientUpdateTaskSchema_shape getProp_def)

theorem client_schemas_exclude_reward_fields_witness:
  "safeParse insertTaskSchema
     [(''userId'', JString ''u1''), (''title'', JString ''Patrol''), (''domain'', JString ''fitness''),
      (''xpReward'', JNumber (Finite 9000)), (''isCompleted'', JBoolean True)]
     = Inr [(''userId'', JString ''u1''), (''title'', JString ''Patrol''), (''domain'', JString ''fitness'')]
   \<and> ''xpReward'' \<notin> fst ` set [(''userId'', JString ''u1''), (''title'', JString ''Patrol''), (''domain'', JString ''fitness'')]
   \<and> safeParse clientTaskSchema
     [(''title'', JString ''Patrol''), (''domain'', JString ''fitness''),
      (''estimatedHours'', JNumber (Finite 2)), (''euReward'', JNumber (Finite 50)),
      (''completedAt'', JDate (Some 0))]
     = Inr [(''title'', JString ''Patrol''), (''domain'', JString ''fitness''),
            (''estimatedHours'', JNumber (Finite 2))]
   \<and> ''completedAt'' \<notin> fst ` set [(''title'', JString ''Patrol''), (''domain'', JString ''fitness''),
            (''estimatedHours'', JNumber (Finite 2))]
   \<and> safeParse updateTaskSchema [(''priority'', JString ''high''), (''xpReward'', JNumber (Finite 9000))]
     = Inr [(''priority'', JString ''high'')]
   \<and> ''xpReward'' \<notin> fst ` set [(''priority'', JString ''high'')]
   \<and> safeParse clientUpdateTaskSchema
     [(''actualHours'', JNumber (Finite 1.5)), (''completedAt'', JDate (Some 0)),
      (''euReward'', JNumber (Finite 50))]
     = Inr [(''actualHours'', JNumber (Finite 1.5))]
   \<and> ''completedAt'' \<notin> fst ` set [(''actualHours'', JNumber (Finite 1.5))]"
proof -
  have e1: "safeParse insertTaskSchema
     [(''userId'', JString ''u1''), (''title'', JString ''Patrol''), (''domain'', JString ''fitness''),
      (''xpReward'', JNumber (Finite 9000)), (''isCompleted'', JBoolean True)]
     = Inr [(''userId'', JString ''u1''), (''title'', JString ''Patrol''), (''domain'', JString ''fitness'')]"
    by (simp add: safeParse_def insertTaskSchema_shape getProp_def)
  have e2: "safeParse clientTaskSchema
     [(''title'', JString ''Patrol''), (''domain'', JString ''fitness''),
      (''estimatedHours'', JNumber (Finite 2)), (''euReward'', JNumber (Finite 50)),
      (''completedAt'', JDate (Some 0))]
     = Inr [(''title'', JString ''Patrol''), (''domain'', JString ''fitness''),
            (''estimatedHours'', JNumber (Finite 2))]"
    by (simp add: safeParse_def clientTaskSchema_shape getProp_def)
  have e3: "safeParse updateTaskSchema [(''priority'', JString ''high''), (''xpReward'', JNumber (Finite 9000))]
     = Inr [(''priority'', JString ''high'')]"
    by (simp add: safeParse_def updateTaskSchema_shape getProp_def)
  have e4: "safeParse clientUpdateTaskSchema
     [(''actualHours'', JNumber (Finite 1.5)), (''completedAt'', JDate (Some 0)),
      (''euReward'', JNumber (Finite 50))]
     = Inr [(''actualHours'', JNumber (Finite 1.5))]"
    by (simp add: safeParse_def clientUpdateTaskSchema_shape getProp_def)
  from client_schemas_exclude_reward_fields e1 e2 e3 e4 show ?thesis by blast
qed

section \<open>Create schemas\<close>

text \<open>
  C2. \<^verbatim>\<open>insertUserSchema\<close> has the columns of \<^verbatim>\<open>users\<close> but \<^verbatim>\<open>id\<close>. \<^verbatim>\<open>insertTaskSchema\<close> has the
  columns of \<^verbatim>\<open>tasks\<close> but exactly \<^verbatim>\<open>id\<close>, \<^verbatim>\<open>xpReward\<close>, \<^verbatim>\<open>euReward\<close>, \<^verbatim>\<open>isCompleted\<close>,
  \<^verbatim>\<open>completedAt\<close>, \<^verbatim>\<open>createdAt\<close> and \<^verbatim>\<open>updatedAt\<close>; every other column is kept with the type
  \<^verbatim>\<open>createInsertSchema\<close> gave it, and a validated output has no other key.
\<close>

theorem insert_schemas_fields:
  "map fst insertUserSchema = [''username'', ''password'']
   \<and> set (map fst users) = set (map fst insertUserSchema) \<union> {''id''}
   \<and> list_all (\<lambda>k. map_of insertUserSchema k = map_of (createInsertSchema users) k)
        (map fst insertUserSchema)
   \<and> map fst insertTaskSchema =
        [''userId'', ''title'', ''description'', ''domain'', ''priority'', ''estimatedHours'',
         ''actualHours'', ''dueDate'']
   \<and> set (map fst tasks) =
        set (map fst insertTaskSchema)
        \<union> {''id'', ''xpReward'', ''euReward'', ''isCompleted'', ''completedAt'', ''createdAt'',
            ''updatedAt''}
   \<and> set (map fst insertTaskSchema)
        \<inter> {''id'', ''xpReward'', ''euReward'', ''isCompleted'', ''completedAt'', ''createdAt'',
            ''updatedAt''} = {}
   \<and> list_all (\<lambda>k. map_of insertTaskSchema k = map_of (createInsertSchema tasks) k)
        (map fst insertTaskSchema)
   \<and> (\<forall>d out. safeParse insertUserSchema d = Inr out \<longrightarrow>
        fst ` set out \<subseteq> {''username'', ''password''})
   \<and> (\<forall>d out. safeParse insertTaskSchema d = Inr out \<longrightarrow>
        fst ` set out \<subseteq> {''userId'', ''title'', ''description'', ''domain'', ''priority'',
          ''estimatedHours'', ''actualHours'', ''dueDate''})"
proof -
  have u: "insertUserSchema = [(''username'', ZString), (''password'', ZString)]"
    by (simp add: insertUserSchema_def createInsertSchema_users omit_def)
  have k1: "fst ` set insertUserSchema = {''username'', ''password''}"
    by (simp add: u)
  have k2: "fst ` set insertTaskSchema = {''userId'', ''title'', ''description'', ''domain'', ''priority'',
          ''estimatedHours'', ''actualHours'', ''dueDate''}"
    by (simp add: insertTaskSchema_shape)
  have p1: "map fst insertUserSchema = [''username'', ''password'']"
    by (simp add: u)
  have p2: "set (map fst users) = set (map fst insertUserSchema) \<union> {''id''}"
    by (auto simp add: u users_def)
  have p3: "list_all (\<lambda>k. map_of insertUserSchema k = map_of (createInsertSchema users) k)
        (map fst insertUserSchema)"
    by (simp add: u createInsertSchema_users)
  have p4: "map fst insertTaskSchema =
        [''userId'', ''title'', ''description'', ''domain'', ''priority'', ''estimatedHours'',
         ''actualHours'', ''dueDate'']"
    by (simp add: insertTaskSchema_shape)
  have p5: "set (map fst tasks) =
        set (map fst insertTaskSchema)
        \<union> {''id'', ''xpReward'', ''euReward'', ''isCompleted'', ''completedAt'', ''createdAt'',
            ''updatedAt''}"
    by (auto simp add: insertTaskSchema_shape tasks_def)
  have p6: "set (map fst insertTaskSchema)
        \<inter> {''id'', ''xpReward'', ''euReward'', ''isCompleted'', ''completedAt'', ''createdAt'',
            ''updatedAt''} = {}"
    by (simp add: insertTaskSchema_shape)
  have p7: "list_all (\<lambda>k. map_of insertTaskSchema k = map_of (createInsertSchema tasks) k)
        (map fst insertTaskSchema)"
    by (simp add: insertTaskSchema_shape createInsertSchema_tasks)
  have p8: "\<forall>d out. safeParse insertUserSchema d = Inr out \<longrightarrow>
        fst ` set out \<subseteq> {''username'', ''password''}"
    using safeParse_keys [of insertUserSchema] unfolding k1 by blast
  have p9: "\<forall>d out. safeParse insertTaskSchema d = Inr out \<longrightarrow>
        fst ` set out \<subseteq> {''userId'', ''title'', ''description'', ''domain'', ''priority'',
          ''estimatedHours'', ''actualHours'', ''dueDate''}"
    using safeParse_keys [of insertTaskSchema] unfolding k2 by blast
  from p1 p2 p3 p4 p5 p6 p7 p8 p9 show ?thesis by (intro conjI)
qed

theorem insert_schemas_fields_witness:
  "safeParse insertUserSchema
     [(''id'', JString ''42''), (''username'', JString ''bruce''), (''password'', JString ''alfred'')]
     = Inr [(''username'', JString ''bruce''), (''password'', JString ''alfred'')]
   \<and> fst ` set [(''username'', JString ''bruce''), (''password'', JString ''alfred'')]
       \<subseteq> {''username'', ''password''}
   \<and> safeParse insertTaskSchema
     [(''id'', JString ''7''), (''userId'', JString ''u1''), (''title'', JString ''Patrol''),
      (''domain'', JString ''fitness''), (''createdAt'', JDate (Some 0))]
     = Inr [(''userId'', JString ''u1''), (''title'', JString ''Patrol''),
            (''domain'', JString ''fitness'')]
   \<and> fst ` set [(''userId'', JString ''u1''), (''title'', JString ''Patrol''),
                   (''domain'', JString ''fitness'')]
       \<subseteq> {''userId'', ''title'', ''description'', ''domain'', ''priority'',
          ''estimatedHours'', ''actualHours'', ''dueDate''}"
proof -
  have e1: "safeParse insertUserSchema
     [(''id'', JString ''42''), (''username'', JString ''bruce''), (''password'', JString ''alfred'')]
     = Inr [(''username'', JString ''bruce''), (''password'', JString ''alfred'')]"
    by (simp add: safeParse_def insertUserSchema_def createInsertSchema_users omit_def getProp_def)
  have e2: "safeParse insertTaskSchema
     [(''id'', JString ''7''), (''userId'', JString ''u1''), (''title'', JString ''Patrol''),
      (''domain'', JString ''fitness''), (''createdAt'', JDate (Some 0))]
     = Inr [(''userId'', JString ''u1''), (''title'', JString ''Patrol''),
            (''domain'', JString ''fitness'')]"
    by (simp add: safeParse_def insertTaskSchema_shape getProp_def)
  from insert_schemas_fields e1 e2 show ?thesis by blast
qed

section \<open>Update schema\<close>

text \<open>
  C3. \<^verbatim>\<open>updateTaskSchema\<close> has partial-update semantics: every field accepts \<^verbatim>\<open>undefined\<close>, the
  payload \<^verbatim>\<open>{ title: "New title" }\<close> validates to itself, issues and output keys only
  concern fields the payload has, and \<^verbatim>\<open>userId\<close> never appears in a validated output: a
  payload that carries it has it stripped.
\<close>

theorem update_schema_partial:
  "list_all (\<lambda>kt. parse_type (snd kt) JUndefined = Inr JUndefined) updateTaskSchema
   \<and> safeParse updateTaskSchema [(''title'', JString ''New title'')]
       = Inr [(''title'', JString ''New title'')]
   \<and> (\<forall>d es. safeParse updateTaskSchema d = Inl es \<longrightarrow> fst ` set es \<subseteq> fst ` set d)
   \<and> (\<forall>d out. safeParse updateTaskSchema d = Inr out \<longrightarrow> fst ` set out \<subseteq> fst ` set d)
   \<and> (\<forall>d out. safeParse updateTaskSchema d = Inr out \<longrightarrow> ''userId'' \<notin> fst ` set out)
   \<and> safeParse updateTaskSchema [(''title'', JString ''New title''), (''userId'', JString ''u2'')]
       = Inr [(''title'', JString ''New title'')]"
proof -
  have p1: "list_all (\<lambda>kt. parse_type (snd kt) JUndefined = Inr JUndefined) updateTaskSchema"
    by (simp add: updateTaskSchema_shape)
  have p2: "safeParse updateTaskSchema [(''title'', JString ''New title'')]
       = Inr [(''title'', JString ''New title'')]"
    by (simp add: safeParse_def updateTaskSchema_shape getProp_def)
  have p3: "\<forall>d es. safeParse updateTaskSchema d = Inl es \<longrightarrow> fst ` set es \<subseteq> fst ` set d"
  proof (intro allI impI)
    fix d es
    assume "safeParse updateTaskSchema d = Inl es"
    then have "es = object_issues updateTaskSchema d"
      by (auto simp: safeParse_def split: list.splits)
    then show "fst ` set es \<subseteq> fst ` set d"
      using partial_issues_present [of _ d] by (simp add: updateTaskSchema_def)
  qed
  have p4: "\<forall>d out. safeParse updateTaskSchema d = Inr out \<longrightarrow> fst ` set out \<subseteq> fst ` set d"
  proof (intro allI impI)
    fix d out
    assume "safeParse updateTaskSchema d = Inr out"
    then have "out = object_output updateTaskSchema d"
      by (auto simp: safeParse_def split: list.splits)
    then show "fst ` set out \<subseteq> fst ` set d"
      using object_output_present [of updateTaskSchema d] by simp
  qed
  have k: "''userId'' \<notin> fst ` set updateTaskSchema"
    by (simp add: updateTaskSchema_shape)
  have p5: "\<forall>d out. safeParse updateTaskSchema d = Inr out \<longrightarrow> ''userId'' \<notin> fst ` set out"
    using k safeParse_keys [of updateTaskSchema] by (meson subsetD)
  have p6: "safeParse updateTaskSchema [(''title'', JString ''New title''), (''userId'', JString ''u2'')]
       = Inr [(''title'', JString ''New title'')]"
    by (simp add: safeParse_def updateTaskSchema_shape getProp_def)
  from p1 p2 p3 p4 p5 p6 show ?thesis by (intro conjI)
qed

theorem update_schema_partial_witness:
  "safeParse updateTaskSchema [(''title'', JString ''New title''), (''userId'', JString ''u2'')]
       = Inr [(''title'', JString ''New title'')]
   \<and> fst ` set [(''title'', JString ''New title'')]
       \<subseteq> fst ` set [(''title'', JString ''New title''), (''userId'', JString ''u2'')]
   \<and> ''userId'' \<notin> fst ` set [(''title'', JString ''New title'')]
   \<and> safeParse updateTaskSchema [(''title'', JNumber (Finite 3))] = Inl [(''title'', invalid_type)]
   \<and> fst ` set [(''title'', invalid_type)] \<subseteq> fst ` set [(''title'', JNumber (Finite 3))]"
proof -
  have e1: "safeParse updateTaskSchema [(''title'', JString ''New title''), (''userId'', JString ''u2'')]
       = Inr [(''title'', JString ''New title'')]"
    by (simp add: safeParse_def updateTaskSchema_shape getProp_def)
  have e2: "safeParse updateTaskSchema [(''title'', JNumber (Finite 3))] = Inl [(''title'', invalid_type)]"
    by (simp add: safeParse_def updateTaskSchema_shape getProp_def)
  from update_schema_partial e1 e2 show ?thesis by blast
qed

section \<open>Client create schema\<close>

text \<open>
  C6. \<^verbatim>\<open>clientTaskSchema\<close> excludes \<^verbatim>\<open>userId\<close>: whatever the input object, a validated output
  has no \<^verbatim>\<open>userId\<close> key.
\<close>

theorem client_create_excludes_userId:
  assumes "safeParse clientTaskSchema d = Inr out"
  shows "''userId'' \<notin> fst ` set out"
proof -
  have "''userId'' \<notin> fst ` set clientTaskSchema"
    by (simp add: clientTaskSchema_shape)
  with safeParse_keys [OF assms] show ?thesis by blast
qed

theorem client_create_excludes_userId_witness:
  "safeParse clientTaskSchema
     [(''userId'', JString ''intruder''), (''title'', JString ''Patrol''),
      (''domain'', JString ''fitness''), (''estimatedHours'', JNumber (Finite 1.5))]
     = Inr [(''title'', JString ''Patrol''), (''domain'', JString ''fitness''),
            (''estimatedHours'', JNumber (Finite 1.5))]
   \<and> ''userId'' \<notin> fst ` set [(''title'', JString ''Patrol''), (''domain'', JString ''fitness''),
            (''estimatedHours'', JNumber (Finite 1.5))]"
proof -
  have e: "safeParse clientTaskSchema
     [(''userId'', JString ''intruder''), (''title'', JString ''Patrol''),
      (''domain'', JString ''fitness''), (''estimatedHours'', JNumber (Finite 1.5))]
     = Inr [(''title'', JString ''Patrol''), (''domain'', JString ''fitness''),
            (''estimatedHours'', JNumber (Finite 1.5))]"
    by (simp add: safeParse_def clientTaskSchema_shape getProp_def)
  from client_create_excludes_userId [OF e] e show ?thesis by simp
qed



section \<open>Client update schema\<close>



section \<open>Response transform\<close>

lemmas parseFloat_defs = parseFloat_def isDigit_def isWhiteSpace_def digitsVal_def digitVal_def
  scale10_def

lemma numericFieldTransform_string:
  "(\<exists>v. parse_type numericFieldTransform u = Inr v) \<Longrightarrow> \<exists>s. u = JString s"
  by (cases u) (simp_all add: numericFieldTransform_def)

lemma parseFloat_2_5: "parseFloat ''2.5'' = Finite 2.5"
  by (simp add: parseFloat_defs)

text \<open>
  C7. For a persisted row whose other fields are valid, with \<^verbatim>\<open>estimatedHours = "2.5"\<close> and
  \<^verbatim>\<open>actualHours = null\<close>, \<^verbatim>\<open>taskResponseSchema\<close> succeeds and yields the number 2.5 for
  \<^verbatim>\<open>estimatedHours\<close> and \<^verbatim>\<open>null\<close> for \<^verbatim>\<open>actualHours\<close>.
\<close>

theorem response_transform_hours:
  assumes "object_issues (omit [''estimatedHours'', ''actualHours''] taskResponseSchema) d = []"
    and "getProp d ''estimatedHours'' = JString ''2.5''"
    and "getProp d ''actualHours'' = JNull"
  shows "\<exists>out. safeParse taskResponseSchema d = Inr out
           \<and> map_of out ''estimatedHours'' = Some (JNumber (Finite 2.5))
           \<and> map_of out ''actualHours'' = Some JNull"
proof -
  have eh: "parse_type numericFieldTransform (getProp d ''estimatedHours'') = Inr (JNumber (Finite 2.5))"
    using assms(2) by (simp add: numericFieldTransform_def parseFloat_2_5)
  have ah: "parse_type (ZNullable (ZStringTransform
         (\<lambda>val. if toBoolean (JString val) then JNumber (parseFloat val) else JNull)))
       (getProp d ''actualHours'') = Inr JNull"
    using assms(3) by simp
  have d2: "distinct (map fst (omit [''actualHours''] taskResponseSchema))"
    by (simp add: omit_def taskResponseSchema_shape)
  have f2: "map_of (omit [''actualHours''] taskResponseSchema) ''estimatedHours'' = Some numericFieldTransform"
    by (simp add: omit_def taskResponseSchema_shape)
  have o2: "omit [''estimatedHours''] (omit [''actualHours''] taskResponseSchema)
      = omit [''estimatedHours'', ''actualHours''] taskResponseSchema"
    by (simp add: omit_def taskResponseSchema_shape)
  from assms(1)
  have o1: "object_issues (omit [''estimatedHours''] (omit [''actualHours''] taskResponseSchema)) d = []"
    by (simp only: o2)
  from otherwise_valid [OF d2 f2 o1] eh
  have "object_issues (omit [''actualHours''] taskResponseSchema) d = []" by blast
  from otherwise_valid [OF taskResponseSchema_distinct taskResponseSchema_actualHours this] ah
  have "object_issues taskResponseSchema d = []" by blast
  then obtain out where out: "safeParse taskResponseSchema d = Inr out"
    using safeParse_Inr_iff by blast
  from safeParse_lookup [OF taskResponseSchema_distinct taskResponseSchema_estimatedHours out eh]
  have "map_of out ''estimatedHours'' = Some (JNumber (Finite 2.5))" by simp
  moreover
  from safeParse_lookup [OF taskResponseSchema_distinct taskResponseSchema_actualHours out ah]
  have "map_of out ''actualHours'' = Some JNull" by simp
  ultimately show ?thesis using out by blast
qed

theorem response_transform_hours_witness:
  "object_issues (omit [''estimatedHours'', ''actualHours''] taskResponseSchema)
     [(''id'', JString ''t1''), (''userId'', JString ''u1''), (''title'', JString ''Patrol''),
      (''description'', JNull), (''domain'', JString ''fitness''), (''priority'', JString ''medium''),
      (''estimatedHours'', JString ''2.5''), (''actualHours'', JNull),
      (''xpReward'', JNumber (Finite 0)), (''euReward'', JNumber (Finite 0)),
      (''isCompleted'', JBoolean False), (''completedAt'', JNull), (''dueDate'', JNull),
      (''createdAt'', JDate (Some 0)), (''updatedAt'', JDate (Some 0))] = []
   \<and> (\<exists>out. safeParse taskResponseSchema
     [(''id'', JString ''t1''), (''userId'', JString ''u1''), (''title'', JString ''Patrol''),
      (''description'', JNull), (''domain'', JString ''fitness''), (''priority'', JString ''medium''),
      (''estimatedHours'', JString ''2.5''), (''actualHours'', JNull),
      (''xpReward'', JNumber (Finite 0)), (''euReward'', JNumber (Finite 0)),
      (''isCompleted'', JBoolean False), (''completedAt'', JNull), (''dueDate'', JNull),
      (''createdAt'', JDate (Some 0)), (''updatedAt'', JDate (Some 0))] = Inr out
       \<and> map_of out ''estimatedHours'' = Some (JNumber (Finite 2.5))
       \<and> map_of out ''actualHours'' = Some JNull)"
proof -
  have h1: "object_issues (omit [''estimatedHours'', ''actualHours''] taskResponseSchema)
     [(''id'', JString ''t1''), (''userId'', JString ''u1''), (''title'', JString ''Patrol''),
      (''description'', JNull), (''domain'', JString ''fitness''), (''priority'', JString ''medium''),
      (''estimatedHours'', JString ''2.5''), (''actualHours'', JNull),
      (''xpReward'', JNumber (Finite 0)), (''euReward'', JNumber (Finite 0)),
      (''isCompleted'', JBoolean False), (''completedAt'', JNull), (''dueDate'', JNull),
      (''createdAt'', JDate (Some 0)), (''updatedAt'', JDate (Some 0))] = []"
    by (simp add: omit_def taskResponseSchema_shape getProp_def)
  have h2: "getProp
     [(''id'', JString ''t1''), (''userId'', JString ''u1''), (''title'', JString ''Patrol''),
      (''description'', JNull), (''domain'', JString ''fitness''), (''priority'', JString ''medium''),
      (''estimatedHours'', JString ''2.5''), (''actualHours'', JNull),
      (''xpReward'', JNumber (Finite 0)), (''euReward'', JNumber (Finite 0)),
      (''isCompleted'', JBoolean False), (''completedAt'', JNull), (''dueDate'', JNull),
      (''createdAt'', JDate (Some 0)), (''updatedAt'', JDate (Some 0))] ''estimatedHours'' = JString ''2.5''"
    by (simp add: getProp_def)
  have h3: "getProp
     [(''id'', JString ''t1''), (''userId'', JString ''u1''), (''title'', JString ''Patrol''),
      (''description'', JNull), (''domain'', JString ''fitness''), (''priority'', JString ''medium''),
      (''estimatedHours'', JString ''2.5''), (''actualHours'', JNull),
      (''xpReward'', JNumber (Finite 0)), (''euReward'', JNumber (Finite 0)),
      (''isCompleted'', JBoolean False), (''completedAt'', JNull), (''dueDate'', JNull),
      (''createdAt'', JDate (Some 0)), (''updatedAt'', JDate (Some 0))] ''actualHours'' = JNull"
    by (simp add: getProp_def)
  from response_transform_hours [OF h1 h2 h3] h1 show ?thesis by simp
qed



text \<open>
  C8 (as amended). \<^verbatim>\<open>taskResponseSchema\<close> is not idempotent: applied to its own output it always
  fails, since \<^verbatim>\<open>estimatedHours\<close> is then a number and \<^verbatim>\<open>z.string()\<close> rejects it with
  \<^verbatim>\<open>invalid_type\<close>.
\<close>

theorem response_transform_rejects_own_output:
  assumes "safeParse taskResponseSchema d = Inr out"
  shows "\<exists>es. safeParse taskResponseSchema out = Inl es
           \<and> (''estimatedHours'', invalid_type) \<in> set es"
proof -
  from taskResponseSchema_estimatedHours
  have mem: "(''estimatedHours'', numericFieldTransform) \<in> set taskResponseSchema"
    by (rule map_of_SomeD)
  from safeParse_Inr_output [OF assms]
  have "object_issues taskResponseSchema d = []" by simp
  from object_issues_Nil [OF this mem]
  have ok: "\<exists>v. parse_type numericFieldTransform (getProp d ''estimatedHours'') = Inr v" .
  from numericFieldTransform_string [OF ok]
  obtain s where s: "getProp d ''estimatedHours'' = JString s" by blast
  then have first: "parse_type numericFieldTransform (getProp d ''estimatedHours'')
      = Inr (JNumber (parseFloat s))"
    by (simp add: numericFieldTransform_def)
  from safeParse_lookup [OF taskResponseSchema_distinct taskResponseSchema_estimatedHours assms first]
  have "map_of out ''estimatedHours'' = Some (JNumber (parseFloat s))" by simp
  then have "getProp out ''estimatedHours'' = JNumber (parseFloat s)"
    by (simp add: getProp_def)
  then have second: "parse_type numericFieldTransform (getProp out ''estimatedHours'')
      = Inl [invalid_type]"
    by (simp add: numericFieldTransform_def)
  from object_issues_member [OF mem second]
  have iss: "(''estimatedHours'', invalid_type) \<in> set (object_issues taskResponseSchema out)"
    by simp
  then have "object_issues taskResponseSchema out \<noteq> []" by auto
  then have "safeParse taskResponseSchema out = Inl (object_issues taskResponseSchema out)"
    by (cases "object_issues taskResponseSchema out") (simp_all add: safeParse_def)
  with iss show ?thesis by blast
qed

text \<open>
  The row of C7 validates, and its output, where \<^verbatim>\<open>estimatedHours\<close> is the number 2.5, does not.
\<close>

theorem response_transform_not_idempotent:
  "safeParse taskResponseSchema
     [(''id'', JString ''t1''), (''userId'', JString ''u1''), (''title'', JString ''Patrol''),
      (''description'', JNull), (''domain'', JString ''fitness''), (''priority'', JString ''medium''),
      (''estimatedHours'', JString ''2.5''), (''actualHours'', JNull),
      (''xpReward'', JNumber (Finite 0)), (''euReward'', JNumber (Finite 0)),
      (''isCompleted'', JBoolean False), (''completedAt'', JNull), (''dueDate'', JNull),
      (''createdAt'', JDate (Some 0)), (''updatedAt'', JDate (Some 0))]
   = Inr
     [(''id'', JString ''t1''), (''userId'', JString ''u1''), (''title'', JString ''Patrol''),
      (''description'', JNull), (''domain'', JString ''fitness''), (''priority'', JString ''medium''),
      (''estimatedHours'', JNumber (Finite 2.5)), (''actualHours'', JNull),
      (''xpReward'', JNumber (Finite 0)), (''euReward'', JNumber (Finite 0)),
      (''isCompleted'', JBoolean False), (''completedAt'', JNull), (''dueDate'', JNull),
      (''createdAt'', JDate (Some 0)), (''updatedAt'', JDate (Some 0))]
   \<and> safeParse taskResponseSchema
     [(''id'', JString ''t1''), (''userId'', JString ''u1''), (''title'', JString ''Patrol''),
      (''description'', JNull), (''domain'', JString ''fitness''), (''priority'', JString ''medium''),
      (''estimatedHours'', JNumber (Finite 2.5)), (''actualHours'', JNull),
      (''xpReward'', JNumber (Finite 0)), (''euReward'', JNumber (Finite 0)),
      (''isCompleted'', JBoolean False), (''completedAt'', JNull), (''dueDate'', JNull),
      (''createdAt'', JDate (Some 0)), (''updatedAt'', JDate (Some 0))]
   = Inl [(''estimatedHours'', invalid_type)]"
  by (simp add: safeParse_def taskResponseSchema_shape numericFieldTransform_def getProp_def
      parseFloat_defs)

theorem response_transform_rejects_own_output_witness:
  "safeParse taskResponseSchema
     [(''id'', JString ''t1''), (''userId'', JString ''u1''), (''title'', JString ''Patrol''),
      (''description'', JNull), (''domain'', JString ''fitness''), (''priority'', JString ''medium''),
      (''estimatedHours'', JString ''8.0''), (''actualHours'', JString ''7.5''),
      (''xpReward'', JNumber (Finite 0)), (''euReward'', JNumber (Finite 0)),
      (''isCompleted'', JBoolean False), (''completedAt'', JNull), (''dueDate'', JNull),
      (''createdAt'', JDate (Some 0)), (''updatedAt'', JDate (Some 0))]
   = Inr
     [(''id'', JString ''t1''), (''userId'', JString ''u1''), (''title'', JString ''Patrol''),
      (''description'', JNull), (''domain'', JString ''fitness''), (''priority'', JString ''medium''),
      (''estimatedHours'', JNumber (Finite 8)), (''actualHours'', JNumber (Finite 7.5)),
      (''xpReward'', JNumber (Finite 0)), (''euReward'', JNumber (Finite 0)),
      (''isCompleted'', JBoolean False), (''completedAt'', JNull), (''dueDate'', JNull),
      (''createdAt'', JDate (Some 0)), (''updatedAt'', JDate (Some 0))]
   \<and> (\<exists>es. safeParse taskResponseSchema
     [(''id'', JString ''t1''), (''userId'', JString ''u1''), (''title'', JString ''Patrol''),
      (''description'', JNull), (''domain'', JString ''fitness''), (''priority'', JString ''medium''),
      (''estimatedHours'', JNumber (Finite 8)), (''actualHours'', JNumber (Finite 7.5)),
      (''xpReward'', JNumber (Finite 0)), (''euReward'', JNumber (Finite 0)),
      (''isCompleted'', JBoolean False), (''completedAt'', JNull), (''dueDate'', JNull),
      (''createdAt'', JDate (Some 0)), (''updatedAt'', JDate (Some 0))]
     = Inl es \<and> (''estimatedHours'', invalid_type) \<in> set es)"
proof -
  have e: "safeParse taskResponseSchema
     [(''id'', JString ''t1''), (''userId'', JString ''u1''), (''title'', JString ''Patrol''),
      (''description'', JNull), (''domain'', JString ''fitness''), (''priority'', JString ''medium''),
      (''estimatedHours'', JString ''8.0''), (''actualHours'', JString ''7.5''),
      (''xpReward'', JNumber (Finite 0)), (''euReward'', JNumber (Finite 0)),
      (''isCompleted'', JBoolean False), (''completedAt'', JNull), (''dueDate'', JNull),
      (''createdAt'', JDate (Some 0)), (''updatedAt'', JDate (Some 0))]
   = Inr
     [(''id'', JString ''t1''), (''userId'', JString ''u1''), (''title'', JString ''Patrol''),
      (''description'', JNull), (''domain'', JString ''fitness''), (''priority'', JString ''medium''),
      (''estimatedHours'', JNumber (Finite 8)), (''actualHours'', JNumber (Finite 7.5)),
      (''xpReward'', JNumber (Finite 0)), (''euReward'', JNumber (Finite 0)),
      (''isCompleted'', JBoolean False), (''completedAt'', JNull), (''dueDate'', JNull),
      (''createdAt'', JDate (Some 0)), (''updatedAt'', JDate (Some 0))]"
    by (simp add: safeParse_def taskResponseSchema_shape numericFieldTransform_def getProp_def
        parseFloat_defs)
  from response_transform_rejects_own_output [OF e] e show ?thesis by simp
qed




end
